theory Spec2Isabelle
  imports Main "HOL-Library.AList" "HOL-Library.Word" "HOL-Library.List_Lexorder"
    "HOL-Library.Char_ord"
begin

section \<open>Asset pipeline (internal/upload/upload.go)\<close>

text \<open>
  The pipeline is followed at the level of pixel dimensions. An image is represented
  by what \<^verbatim>\<open>img.Bounds().Dx()\<close> and \<^verbatim>\<open>img.Bounds().Dy()\<close> return; pixel data
  plays no part in any branch of the code.
\<close>

definition MaxImageSize :: int where
  "MaxImageSize = 32 * 1024 * 1024"

definition MaxResolution :: int where
  "MaxResolution = 2048"

definition Print1080pWidth :: int where
  "Print1080pWidth = 1920"

definition Print1080pHeight :: int where
  "Print1080pHeight = 1080"

record Image =
  Dx :: int
  Dy :: int

text \<open>
  \<^verbatim>\<open>imaging.Resize\<close> belongs to the library github.com/disintegration/imaging, which
  the repository imports. Its dimension rule is written out here as the library
  documents and implements it: a negative target, a 0x0 target or an empty source
  gives the empty image; a target axis of 0 is replaced by the value that keeps the
  aspect ratio, \<^verbatim>\<open>int(math.Max(1.0, math.Floor(tmp+0.5)))\<close> with
  \<^verbatim>\<open>tmp = float64(other) * float64(src) / float64(srcOther)\<close>; otherwise the
  result has exactly the requested width and height.  The library computes \<open>tmp\<close>
  in float64; for dimensions below \<open>2^40\<close> the rounded result is the exact
  \<open>\<lfloor>a / b + 1/2\<rfloor>\<close>, which \<open>round_half_up\<close> computes on integers.
\<close>

definition round_half_up :: "int \<Rightarrow> int \<Rightarrow> int" where
  "round_half_up a b = (2 * a + b) div (2 * b)"

definition imaging_Resize :: "Image \<Rightarrow> int \<Rightarrow> int \<Rightarrow> Image" where
  "imaging_Resize img width height =
     (if width < 0 \<or> height < 0 then \<lparr>Dx = 0, Dy = 0\<rparr>
      else if width = 0 \<and> height = 0 then \<lparr>Dx = 0, Dy = 0\<rparr>
      else if Dx img \<le> 0 \<or> Dy img \<le> 0 then \<lparr>Dx = 0, Dy = 0\<rparr>
      else
        let dstW = (if width = 0
                    then max 1 (round_half_up (height * Dx img) (Dy img)) else width);
            dstH = (if height = 0
                    then max 1 (round_half_up (dstW * Dy img) (Dx img)) else height)
        in \<lparr>Dx = dstW, Dy = dstH\<rparr>)"

text \<open>\<^verbatim>\<open>resizeImage\<close> (upload.go, second half of the file).\<close>

definition resizeImage :: "Image \<Rightarrow> bool \<Rightarrow> Image" where
  "resizeImage img noResize =
     (let width = Dx img; height = Dy img in
      if \<not> noResize then
        (if width > height
         then imaging_Resize img Print1080pWidth Print1080pHeight
         else imaging_Resize img Print1080pHeight Print1080pWidth)
      else if width > MaxResolution \<or> height > MaxResolution then
        (if width > height
         then imaging_Resize img MaxResolution 0
         else imaging_Resize img 0 MaxResolution)
      else img)"

text \<open>
  Go error values. \<open>Errorf msg\<close> is \<^verbatim>\<open>fmt.Errorf(msg)\<close>, \<open>Errorf_w msg err\<close> is
  \<^verbatim>\<open>fmt.Errorf(msg + ": %w", err)\<close>; the three \<open>Err...\<close> constructors are the
  errors the operating system reports, \<open>ErrFormat\<close> an undecodable image and
  \<open>ErrJSON\<close> a failed JSON encode or decode.
\<close>

datatype error =
    ErrNotExist
  | ErrPermission
  | ErrIO
  | ErrFormat
  | ErrJSON
  | Errorf string
  | Errorf_w string error

text \<open>
  What \<^verbatim>\<open>prepareImage\<close> observes of the file at \<^verbatim>\<open>imagePath\<close>: the result of
  \<^verbatim>\<open>os.Stat\<close> (an error or \<^verbatim>\<open>info.Size()\<close>), of \<^verbatim>\<open>os.Open\<close>, and of
  \<^verbatim>\<open>image.Decode\<close>.
\<close>

record image_file =
  stat_result :: "error + int"
  open_result :: "error option"
  decode_result :: "error + Image"

text \<open>
  \<^verbatim>\<open>prepareImage\<close> as it stands in the second half of upload.go, where it calls
  \<^verbatim>\<open>resizeImage\<close>. The parameter \<open>png_Encode\<close> is \<^verbatim>\<open>png.Encode\<close> followed by
  \<^verbatim>\<open>buf.Len()\<close>: an error or the number of encoded bytes. The function returns
  the image whose PNG bytes the Go code returns.
\<close>

definition prepareImage ::
  "(Image \<Rightarrow> error + int) \<Rightarrow> image_file \<Rightarrow> bool \<Rightarrow> error + Image" where
  "prepareImage png_Encode file noResize =
     (case stat_result file of
        Inl err \<Rightarrow> Inl (Errorf_w ''failed to stat image file'' err)
      | Inr sz \<Rightarrow>
          if sz > MaxImageSize then Inl (Errorf ''image file too large'')
          else
            (case open_result file of
               Some err \<Rightarrow> Inl (Errorf_w ''failed to open image file'' err)
             | None \<Rightarrow>
                 (case decode_result file of
                    Inl err \<Rightarrow> Inl (Errorf_w ''failed to decode image'' err)
                  | Inr img0 \<Rightarrow>
                      let img = resizeImage img0 noResize in
                      (case png_Encode img of
                         Inl err \<Rightarrow> Inl (Errorf_w ''failed to encode image as PNG'' err)
                       | Inr len \<Rightarrow>
                           if len > MaxImageSize
                           then Inl (Errorf ''encoded image too large'')
                           else Inr img))))"

text \<open>
  \<^verbatim>\<open>prepareImage\<close> as it stands in the first half of upload.go, with the two
  resizing steps written inline: the clamp to \<open>MaxResolution\<close> first, then the
  1080p step, which compares the width and height read before the clamp.
\<close>

definition prepareImage_inline ::
  "(Image \<Rightarrow> error + int) \<Rightarrow> image_file \<Rightarrow> bool \<Rightarrow> error + Image" where
  "prepareImage_inline png_Encode file noResize =
     (case stat_result file of
        Inl err \<Rightarrow> Inl (Errorf_w ''failed to stat image file'' err)
      | Inr sz \<Rightarrow>
          if sz > MaxImageSize then Inl (Errorf ''image file too large'')
          else
            (case open_result file of
               Some err \<Rightarrow> Inl (Errorf_w ''failed to open image file'' err)
             | None \<Rightarrow>
                 (case decode_result file of
                    Inl err \<Rightarrow> Inl (Errorf_w ''failed to decode image'' err)
                  | Inr img0 \<Rightarrow>
                      let width = Dx img0;
                          height = Dy img0;
                          img1 = (if width > MaxResolution \<or> height > MaxResolution
                                  then (if width > height
                                        then imaging_Resize img0 MaxResolution 0
                                        else imaging_Resize img0 0 MaxResolution)
                                  else img0);
                          img2 = (if \<not> noResize
                                  then (if width > height
                                        then imaging_Resize img1 1920 1080
                                        else imaging_Resize img1 1080 1920)
                                  else img1)
                      in
                      (case png_Encode img2 of
                         Inl err \<Rightarrow> Inl (Errorf_w ''failed to encode image as PNG'' err)
                       | Inr len \<Rightarrow>
                           if len > MaxImageSize
                           then Inl (Errorf ''encoded image too large'')
                           else Inr img2))))"

text \<open>
  The specification's wording of "the aspect ratio is preserved", read exactly
  (\<open>aspect_preserved\<close>: equal ratios, by cross multiplication) and read up to
  rounding of the shorter axis to the nearest pixel (\<open>aspect_within_half_pixel\<close>:
  the output's shorter side is within half a pixel of the exact scaled value).
\<close>

definition aspect_preserved :: "Image \<Rightarrow> Image \<Rightarrow> bool" where
  "aspect_preserved src out = (Dx out * Dy src = Dx src * Dy out)"

definition aspect_within_half_pixel :: "Image \<Rightarrow> Image \<Rightarrow> bool" where
  "aspect_within_half_pixel src out =
     (if Dx src > Dy src
      then 2 * \<bar>Dy out * Dx src - Dx out * Dy src\<bar> \<le> Dx src
      else 2 * \<bar>Dx out * Dy src - Dy out * Dx src\<bar> \<le> Dy src)"

section \<open>Operating system and libraries used by the session client\<close>

text \<open>
  The credential file lives in a file system: a partial map from paths to files, a
  file being its bytes and its permission bits. Every system call may fail for a
  reason outside the program (permissions, a failing disk); which calls fail is an
  input, the record \<open>os_env\<close>. "File does not exist" is not such an input: it is
  read off the file system itself.
\<close>

record File =
  content :: string
  mode :: nat

type_synonym fs = "string \<rightharpoonup> File"

datatype os_fault = NoFault | EACCES | EIO

record os_env =
  fault_Create :: os_fault
  fault_Chmod :: os_fault
  fault_Write :: os_fault
  fault_Open :: os_fault
  fault_Read :: os_fault
  fault_Remove :: os_fault
  partial_write :: nat
  create_mode :: nat

fun raised :: "os_fault \<Rightarrow> error option" where
  "raised NoFault = None"
| "raised EACCES = Some ErrPermission"
| "raised EIO = Some ErrIO"

definition no_faults :: os_env where
  "no_faults = \<lparr>fault_Create = NoFault, fault_Chmod = NoFault, fault_Write = NoFault,
                 fault_Open = NoFault, fault_Read = NoFault, fault_Remove = NoFault,
                 partial_write = 0, create_mode = 420\<rparr>"

definition IsNotExist :: "error \<Rightarrow> bool" where
  "IsNotExist err = (err = ErrNotExist)"

text \<open>
  \<^verbatim>\<open>os.Create\<close> opens with \<^verbatim>\<open>O_RDWR|O_CREATE|O_TRUNC\<close>: an existing file keeps its
  mode and loses its contents, a missing one is created empty with the mode the
  process's umask leaves of 0666 (\<open>create_mode\<close>).
\<close>

definition os_Create :: "os_env \<Rightarrow> fs \<Rightarrow> string \<Rightarrow> error option \<times> fs" where
  "os_Create env fs name =
     (case raised (fault_Create env) of
        Some err \<Rightarrow> (Some err, fs)
      | None \<Rightarrow>
          (None, fs(name \<mapsto> (case fs name of
                                None \<Rightarrow> \<lparr>content = [], mode = create_mode env\<rparr>
                              | Some f \<Rightarrow> f\<lparr>content := []\<rparr>))))"

definition os_Chmod :: "os_env \<Rightarrow> fs \<Rightarrow> string \<Rightarrow> nat \<Rightarrow> error option \<times> fs" where
  "os_Chmod env fs name m =
     (case raised (fault_Chmod env) of
        Some err \<Rightarrow> (Some err, fs)
      | None \<Rightarrow>
          (case fs name of
             None \<Rightarrow> (Some ErrNotExist, fs)
           | Some f \<Rightarrow> (None, fs(name \<mapsto> f\<lparr>mode := m\<rparr>))))"

text \<open>
  Writing \<open>data\<close> to the open file appends it to the contents; a failing write
  leaves the first \<open>partial_write\<close> bytes of \<open>data\<close> behind.
\<close>

definition file_Write :: "os_env \<Rightarrow> fs \<Rightarrow> string \<Rightarrow> string \<Rightarrow> error option \<times> fs" where
  "file_Write env fs name data =
     (case fs name of
        None \<Rightarrow> (Some ErrNotExist, fs)
      | Some f \<Rightarrow>
          (case raised (fault_Write env) of
             Some err \<Rightarrow>
               (Some err, fs(name \<mapsto> f\<lparr>content := content f @ take (partial_write env) data\<rparr>))
           | None \<Rightarrow> (None, fs(name \<mapsto> f\<lparr>content := content f @ data\<rparr>))))"

definition os_Open :: "os_env \<Rightarrow> fs \<Rightarrow> string \<Rightarrow> error + string" where
  "os_Open env fs name =
     (case raised (fault_Open env) of
        Some err \<Rightarrow> Inl err
      | None \<Rightarrow>
          (case fs name of
             None \<Rightarrow> Inl ErrNotExist
           | Some f \<Rightarrow> Inr (content f)))"

definition os_Remove :: "os_env \<Rightarrow> fs \<Rightarrow> string \<Rightarrow> error option \<times> fs" where
  "os_Remove env fs name =
     (case raised (fault_Remove env) of
        Some err \<Rightarrow> (Some err, fs)
      | None \<Rightarrow>
          (case fs name of
             None \<Rightarrow> (Some ErrNotExist, fs)
           | Some f \<Rightarrow> (None, fs(name := None))))"

text \<open>
  \<^verbatim>\<open>time.Time\<close> is an instant: an integer count of nanoseconds from Go's zero time,
  so that \<^verbatim>\<open>IsZero\<close> is equality with 0 and \<^verbatim>\<open>Before\<close> is \<open><\<close>. \<^verbatim>\<open>time.Now()\<close> is
  an argument of the functions that read the clock.
\<close>

type_synonym Time = int

definition IsZero :: "Time \<Rightarrow> bool" where
  "IsZero t = (t = 0)"

definition Before :: "Time \<Rightarrow> Time \<Rightarrow> bool" where
  "Before t u = (t < u)"

text \<open>
  \<^verbatim>\<open>http.Cookie\<close> (net/http, Go 1.21, the version the release workflow builds
  with), field by field in the order of its declaration. Strings are byte strings.
  \<^verbatim>\<open>MaxAge\<close> is an \<^verbatim>\<open>int\<close> and \<^verbatim>\<open>SameSite\<close> a named \<^verbatim>\<open>int\<close>: 64-bit
  words read as signed. \<^verbatim>\<open>Unparsed\<close> is a slice of strings: \<open>None\<close> is the nil
  slice. \<^verbatim>\<open>Raw\<close> is the line of the \<^verbatim>\<open>Set-Cookie\<close> header as the server sent it.
\<close>

record Cookie =
  Name :: string
  Value :: string
  Path :: string
  Domain' :: string
  Expires :: Time
  RawExpires :: string
  MaxAge :: "64 word"
  Secure :: bool
  HttpOnly :: bool
  SameSite :: "64 word"
  Raw :: string
  Unparsed :: "string list option"

record Response =
  StatusCode :: int

text \<open>
  The resty client (github.com/go-resty/resty/v2), as far as this program configures
  it. Durations are in milliseconds. \<^verbatim>\<open>resty.New()\<close> starts with no cookies, no
  headers, no retries and no retry conditions. \<^verbatim>\<open>SetCookies\<close> is the library's
  \<^verbatim>\<open>c.Cookies = append(c.Cookies, cs...)\<close>: it adds to the client's cookies and
  removes none. \<^verbatim>\<open>Cookies\<close> is a slice of pointers: an element is \<open>Some\<close> cookie or
  \<open>None\<close>, the nil pointer.
\<close>

record RestyClient =
  BaseURL :: string
  Header :: "(string \<times> string) list"
  Cookies :: "Cookie option list"
  Timeout :: int
  RetryCount :: nat
  RetryWaitTime :: int
  RetryMaxWaitTime :: int
  RetryConditions :: "(Response \<Rightarrow> error option \<Rightarrow> bool) list"

definition resty_New :: RestyClient where
  "resty_New = \<lparr>BaseURL = [], Header = [], Cookies = [], Timeout = 0, RetryCount = 0,
                 RetryWaitTime = 100, RetryMaxWaitTime = 2000, RetryConditions = []\<rparr>"

definition SetBaseURL :: "string \<Rightarrow> RestyClient \<Rightarrow> RestyClient" where
  "SetBaseURL url c = c\<lparr>BaseURL := url\<rparr>"

definition SetHeader :: "string \<Rightarrow> string \<Rightarrow> RestyClient \<Rightarrow> RestyClient" where
  "SetHeader k v c = c\<lparr>Header := AList.update k v (Header c)\<rparr>"

definition Header_Get :: "(string \<times> string) list \<Rightarrow> string \<Rightarrow> string" where
  "Header_Get h k = (case map_of h k of None \<Rightarrow> [] | Some v \<Rightarrow> v)"

definition SetCookies :: "Cookie option list \<Rightarrow> RestyClient \<Rightarrow> RestyClient" where
  "SetCookies cs c = c\<lparr>Cookies := Cookies c @ cs\<rparr>"

text \<open>
  \<^verbatim>\<open>encoding/json\<close> on \<^verbatim>\<open>map[string]*http.Cookie\<close> is a parameter of the model:
  \<open>Encode\<close> gives the bytes written for a cookie map or fails; \<open>Decode\<close> gives, for
  the bytes of a file, the entries it stores into the target map (in document
  order) and the error it reports, if any. A map value is a pointer: \<open>Some\<close> cookie,
  or \<open>None\<close> for nil, which JSON writes and reads as \<open>null\<close>.
\<close>

record json_codec =
  Encode :: "(string \<times> Cookie option) list \<Rightarrow> error + string"
  Decode :: "string \<Rightarrow> error option \<times> (string \<times> Cookie option) list"

section \<open>Configuration (internal/config/config.go)\<close>

record Config =
  APIBaseURL :: string
  configDir :: string

text \<open>\<^verbatim>\<open>filepath.Join\<close> on a directory and a file name (no path cleaning is modelled).\<close>

definition filepath_Join :: "string \<Rightarrow> string \<Rightarrow> string" where
  "filepath_Join dir name = (if dir = [] then name else dir @ ''/'' @ name)"

definition CookieFile :: "Config \<Rightarrow> string" where
  "CookieFile c = filepath_Join (configDir c) ''cookies.json''"

section \<open>Session client (internal/auth/auth.go)\<close>

text \<open>
  \<^verbatim>\<open>Client.cookies\<close> is a Go map from cookie names to cookie pointers,
  \<^verbatim>\<open>map[string]*http.Cookie\<close>. It is kept as an association list, looked up with
  \<open>map_of\<close> and written with \<open>AList.update\<close>; the order of the list stands for the
  order in which \<^verbatim>\<open>range\<close> visits the map. A stored pointer is \<open>Some\<close> cookie or
  \<open>None\<close>, the nil pointer: the hook \<^verbatim>\<open>saveCookies\<close> stores only cookies, but
  \<^verbatim>\<open>loadCookies\<close> stores nil for an entry that the file gives as \<open>null\<close>.
  Reading a field through a nil pointer panics.
\<close>

datatype panic = NilPointerDereference

record Client =
  config :: Config
  httpClient :: RestyClient
  cookies :: "(string \<times> Cookie option) list"

text \<open>
  \<^verbatim>\<open>json.NewDecoder(file).Decode(&c.cookies)\<close>: a failing read reports its error and
  stores nothing; otherwise the decoded entries are stored into the existing map,
  also when the decoder reports an error after some of them.
\<close>

definition store_entries ::
  "(string \<times> Cookie option) list \<Rightarrow> (string \<times> Cookie option) list
     \<Rightarrow> (string \<times> Cookie option) list" where
  "store_entries entries m = fold (\<lambda>(k, v). AList.update k v) entries m"

definition json_Decode ::
  "json_codec \<Rightarrow> os_env \<Rightarrow> string \<Rightarrow> (string \<times> Cookie option) list
     \<Rightarrow> error option \<times> (string \<times> Cookie option) list" where
  "json_Decode J env data m =
     (case raised (fault_Read env) of
        Some err \<Rightarrow> (Some err, m)
      | None \<Rightarrow>
          (case Decode J data of
             (err, entries) \<Rightarrow> (err, store_entries entries m)))"

definition loadCookies ::
  "json_codec \<Rightarrow> os_env \<Rightarrow> Client \<Rightarrow> fs \<Rightarrow> error option \<times> Client" where
  "loadCookies J env c fs =
     (case os_Open env fs (CookieFile (config c)) of
        Inl err \<Rightarrow> if IsNotExist err then (None, c) else (Some err, c)
      | Inr data \<Rightarrow>
          (case json_Decode J env data (cookies c) of
             (Some err, cs) \<Rightarrow> (Some err, c\<lparr>cookies := cs\<rparr>)
           | (None, cs) \<Rightarrow>
               (None, c\<lparr>cookies := cs,
                        httpClient := SetCookies (map snd cs) (httpClient c)\<rparr>)))"

text \<open>
  \<^verbatim>\<open>NewClient\<close> returns the client only: the value \<^verbatim>\<open>loadCookies\<close> returns is
  dropped by the statement \<^verbatim>\<open>client.loadCookies()\<close>. Registering
  \<^verbatim>\<open>saveCookies\<close> as the hook after each response changes no field that is
  modelled.
\<close>

definition NewClient :: "json_codec \<Rightarrow> os_env \<Rightarrow> Config \<Rightarrow> fs \<Rightarrow> Client" where
  "NewClient J env cfg fs =
     (let client = \<lparr>config = cfg, httpClient = resty_New, cookies = []\<rparr>;
          client = client\<lparr>httpClient := SetBaseURL (APIBaseURL cfg) (httpClient client)\<rparr>;
          client = client\<lparr>httpClient :=
                      SetHeader ''User-Agent'' ''vrc-print-upload/1.0'' (httpClient client)\<rparr>
      in snd (loadCookies J env client fs))"

text \<open>
  \<^verbatim>\<open>IsAuthenticated\<close>. When the key \<open>auth\<close> is present, \<^verbatim>\<open>authCookie.Value\<close> is
  read: through a nil pointer that is a panic, not a result.
\<close>

definition IsAuthenticated :: "Client \<Rightarrow> Time \<Rightarrow> panic + bool" where
  "IsAuthenticated c now =
     (case map_of (cookies c) ''auth'' of
        None \<Rightarrow> Inr False
      | Some None \<Rightarrow> Inl NilPointerDereference
      | Some (Some authCookie) \<Rightarrow>
          if Value authCookie = [] then Inr False
          else if \<not> IsZero (Expires authCookie) \<and> Before (Expires authCookie) now
          then Inr False
          else Inr True)"

definition Logout :: "os_env \<Rightarrow> Client \<Rightarrow> fs \<Rightarrow> error option \<times> Client \<times> fs" where
  "Logout env c fs =
     (let c = c\<lparr>cookies := []\<rparr>;
          c = c\<lparr>httpClient := SetCookies [] (httpClient c)\<rparr>
      in case os_Remove env fs (CookieFile (config c)) of
           (Some err, fs') \<Rightarrow>
             if \<not> IsNotExist err
             then (Some (Errorf_w ''failed to remove cookie file'' err), c, fs')
             else (None, c, fs')
         | (None, fs') \<Rightarrow> (None, c, fs'))"

text \<open>
  \<^verbatim>\<open>saveCookies\<close>, the hook run after every response, on the cookies of that
  response (\<^verbatim>\<open>resp.Cookies()\<close> holds no nil pointer).
\<close>

definition saveCookies :: "Client \<Rightarrow> Cookie list \<Rightarrow> Client" where
  "saveCookies c resp_cookies =
     (let cs = fold (\<lambda>cookie. AList.update (Name cookie) (Some cookie)) resp_cookies
                (cookies c)
      in c\<lparr>cookies := cs, httpClient := SetCookies (map snd cs) (httpClient c)\<rparr>)"

text \<open>
  \<^verbatim>\<open>saveCookiesToFile\<close>. The deferred \<^verbatim>\<open>file.Close()\<close> changes nothing that is
  modelled. 384 is octal 0600.
\<close>

definition saveCookiesToFile ::
  "json_codec \<Rightarrow> os_env \<Rightarrow> Client \<Rightarrow> fs \<Rightarrow> error option \<times> fs" where
  "saveCookiesToFile J env c fs =
     (let cookieFile = CookieFile (config c) in
      case os_Create env fs cookieFile of
        (Some err, fs1) \<Rightarrow> (Some err, fs1)
      | (None, fs1) \<Rightarrow>
          (case os_Chmod env fs1 cookieFile 384 of
             (Some err, fs2) \<Rightarrow> (Some err, fs2)
           | (None, fs2) \<Rightarrow>
               (case Encode J (cookies c) of
                  Inl err \<Rightarrow> (Some err, fs2)
                | Inr data \<Rightarrow> file_Write env fs2 cookieFile data)))"

subsection \<open>The Basic authorization header\<close>

text \<open>
  \<^verbatim>\<open>url.QueryEscape\<close> (Go's net/url, \<^verbatim>\<open>escape(s, encodeQueryComponent)\<close>): a first
  loop counts the spaces and the bytes to escape and returns the string itself when
  there are none; a second loop writes \<open>+\<close> for a space, \<open>%XX\<close> in upper-case hex
  for a byte that \<^verbatim>\<open>shouldEscape\<close> and the byte itself otherwise.
\<close>

definition shouldEscape :: "char \<Rightarrow> bool" where
  "shouldEscape c =
     (let n = (of_char c :: nat) in
      if (97 \<le> n \<and> n \<le> 122) \<or> (65 \<le> n \<and> n \<le> 90) \<or> (48 \<le> n \<and> n \<le> 57) then False
      else if c = CHR ''-'' \<or> c = CHR ''_'' \<or> c = CHR ''.'' \<or> c = CHR ''~'' then False
      else True)"

definition upperhex :: string where
  "upperhex = ''0123456789ABCDEF''"

fun escape_count :: "string \<Rightarrow> nat \<times> nat" where
  "escape_count [] = (0, 0)"
| "escape_count (c # s) =
     (case escape_count s of
        (spaceCount, hexCount) \<Rightarrow>
          if shouldEscape c
          then (if c = CHR '' '' then (Suc spaceCount, hexCount)
                else (spaceCount, Suc hexCount))
          else (spaceCount, hexCount))"

fun escape_write :: "string \<Rightarrow> string" where
  "escape_write [] = []"
| "escape_write (c # s) =
     (if c = CHR '' '' then CHR ''+'' # escape_write s
      else if shouldEscape c
      then CHR ''%'' # upperhex ! (of_char c div 16) # upperhex ! (of_char c mod 16)
             # escape_write s
      else c # escape_write s)"

definition QueryEscape :: "string \<Rightarrow> string" where
  "QueryEscape s =
     (case escape_count s of
        (spaceCount, hexCount) \<Rightarrow>
          if spaceCount = 0 \<and> hexCount = 0 then s else escape_write s)"

text \<open>
  \<^verbatim>\<open>base64.StdEncoding.EncodeToString\<close> (Go's encoding/base64): three bytes make a
  24-bit value written as four characters of the alphabet; a remainder of two bytes
  or one byte is written as three or two characters and padded with \<open>=\<close>.
\<close>

definition encodeStd :: string where
  "encodeStd = ''ABCDEFGHIJKLMNOPQRSTUVWXYZabcdefghijklmnopqrstuvwxyz0123456789+/''"

fun EncodeToString :: "string \<Rightarrow> string" where
  "EncodeToString (a # b # c # src) =
     (let val = (of_char a :: nat) * 65536 + of_char b * 256 + of_char c in
      encodeStd ! (val div 262144 mod 64) # encodeStd ! (val div 4096 mod 64)
        # encodeStd ! (val div 64 mod 64) # encodeStd ! (val mod 64)
        # EncodeToString src)"
| "EncodeToString [a, b] =
     (let val = (of_char a :: nat) * 65536 + of_char b * 256 in
      [encodeStd ! (val div 262144 mod 64), encodeStd ! (val div 4096 mod 64),
       encodeStd ! (val div 64 mod 64), CHR ''=''])"
| "EncodeToString [a] =
     (let val = (of_char a :: nat) * 65536 in
      [encodeStd ! (val div 262144 mod 64), encodeStd ! (val div 4096 mod 64),
       CHR ''='', CHR ''=''])"
| "EncodeToString [] = []"

definition createAuthHeader :: "string \<Rightarrow> string \<Rightarrow> string" where
  "createAuthHeader username password =
     (let encodedUsername = QueryEscape username;
          encodedPassword = QueryEscape password;
          credentials = encodedUsername @ '':'' @ encodedPassword;
          encoded = EncodeToString credentials
      in ''Basic '' @ encoded)"

text \<open>
  The specification's wording, for comparison with \<^verbatim>\<open>url.QueryEscape\<close>.
  \<open>percentEncode\<close> is percent-encoding as RFC 3986 defines it: every byte outside the
  unreserved set (letters, digits, \<open>-\<close>, \<open>.\<close>, \<open>_\<close>, \<open>~\<close>) becomes \<open>%\<close> and two
  upper-case hex digits, the space included. \<open>formEncode\<close> is the form variant that
  writes a space as \<open>+\<close>.
\<close>

definition unreserved :: "char \<Rightarrow> bool" where
  "unreserved c =
     (let n = (of_char c :: nat) in
      (97 \<le> n \<and> n \<le> 122) \<or> (65 \<le> n \<and> n \<le> 90) \<or> (48 \<le> n \<and> n \<le> 57)
      \<or> c \<in> set ''-._~'')"

definition pct :: "char \<Rightarrow> string" where
  "pct c = [CHR ''%'', upperhex ! (of_char c div 16), upperhex ! (of_char c mod 16)]"

definition percentEncode :: "string \<Rightarrow> string" where
  "percentEncode s = concat (map (\<lambda>c. if unreserved c then [c] else pct c) s)"

definition formEncode :: "string \<Rightarrow> string" where
  "formEncode s =
     concat (map (\<lambda>c. if c = CHR '' '' then ''+'' else percentEncode [c]) s)"

section \<open>Resilient transport (internal/client/client.go)\<close>

definition defaultTimeout :: int where
  "defaultTimeout = 30 * 1000"

definition maxRetries :: nat where
  "maxRetries = 3"

definition retryWaitTime :: int where
  "retryWaitTime = 1 * 1000"

definition maxRetryWait :: int where
  "maxRetryWait = 10 * 1000"

text \<open>The function literal passed to \<^verbatim>\<open>AddRetryCondition\<close>.\<close>

definition retryCondition :: "Response \<Rightarrow> error option \<Rightarrow> bool" where
  "retryCondition r err =
     (if err \<noteq> None then True
      else StatusCode r = 429 \<or> StatusCode r \<ge> 500)"

definition client_New :: "RestyClient \<Rightarrow> RestyClient" where
  "client_New authClient =
     (let client = resty_New;
          client = SetBaseURL (BaseURL authClient) client;
          client = SetCookies (Cookies authClient) client;
          client = SetHeader ''User-Agent'' (Header_Get (Header authClient) ''User-Agent'') client
      in client\<lparr>Timeout := defaultTimeout,
                RetryCount := maxRetries,
                RetryWaitTime := retryWaitTime,
                RetryMaxWaitTime := maxRetryWait,
                RetryConditions := RetryConditions client @ [retryCondition]\<rparr>)"

text \<open>
  How resty runs a request on a client so configured (\<^verbatim>\<open>Request.Execute\<close> and
  \<^verbatim>\<open>Backoff\<close> of the library). The server and the network are the function
  \<open>operation\<close>: the response and the error of the \<open>k\<close>-th send, counted from 0.
  With no retry condition a send is repeated when it returned an error; with
  conditions, when one of them holds. The loop sends once more after each such
  result until \<open>attempt = maxRetries\<close>. The functions return the last response and
  error together with the number of sends. Waiting between sends is not modelled.
\<close>

type_synonym outcome = "Response \<times> error option"

definition needsRetry ::
  "(Response \<Rightarrow> error option \<Rightarrow> bool) list \<Rightarrow> Response \<Rightarrow> error option \<Rightarrow> bool" where
  "needsRetry conds resp err =
     (if conds = [] then err \<noteq> None else list_ex (\<lambda>condition. condition resp err) conds)"

function Backoff ::
  "nat \<Rightarrow> (Response \<Rightarrow> error option \<Rightarrow> bool) list \<Rightarrow> (nat \<Rightarrow> outcome) \<Rightarrow> nat \<Rightarrow> outcome
     \<Rightarrow> outcome \<times> nat" where
  "Backoff retries conds operation attempt prev =
     (if attempt \<le> retries then
        (case operation attempt of
           (resp, err) \<Rightarrow>
             if \<not> needsRetry conds resp err then ((resp, err), Suc attempt)
             else if attempt = retries then ((resp, err), Suc attempt)
             else Backoff retries conds operation (Suc attempt) (resp, err))
      else (prev, attempt))"
  by pat_completeness auto
termination
  by (relation "measure (\<lambda>(retries, conds, operation, attempt, prev). Suc retries - attempt)")
     auto

definition Execute :: "RestyClient \<Rightarrow> (nat \<Rightarrow> outcome) \<Rightarrow> outcome \<times> nat" where
  "Execute c operation =
     (if RetryCount c = 0 then (operation 0, 1)
      else Backoff (RetryCount c) (RetryConditions c) operation 0 (\<lparr>StatusCode = 0\<rparr>, None))"

text \<open>A server that answers the sends with the given status codes in turn, then 200.\<close>

definition statuses :: "int list \<Rightarrow> nat \<Rightarrow> outcome" where
  "statuses xs k = (\<lparr>StatusCode = (if k < length xs then xs ! k else 200)\<rparr>, None)"

section \<open>Data for the examples\<close>

text \<open>
  Concrete inputs at which the theorems below are instantiated: a cookie, a client
  that holds it, a configuration, two file systems (a credential file as
  \<open>example_codec\<close> writes it, and one with bytes that are not a cookie map), and a
  codec that stands in for \<^verbatim>\<open>encoding/json\<close> in the examples. The codec writes
  \<open>name=value;\<close> for every entry, reads back the encoding of the example map and
  reports \<open>ErrJSON\<close> for every other input.
\<close>

definition example_cookie :: Cookie where
  "example_cookie =
     \<lparr>Name = ''auth'', Value = ''tok'', Path = ''/'', Domain' = [], Expires = 0,
      RawExpires = [], MaxAge = 0, Secure = False, HttpOnly = False, SameSite = 0,
      Raw = ''auth=tok; Path=/'', Unparsed = None\<rparr>"

definition example_codec :: json_codec where
  "example_codec =
     \<lparr>Encode = (\<lambda>m. Inr (concat (map (\<lambda>(k, p). k @ ''=''
                          @ (case p of None \<Rightarrow> ''null'' | Some ck \<Rightarrow> Value ck) @ '';'') m))),
      Decode = (\<lambda>s. if s = ''auth=tok;'' then (None, [(''auth'', Some example_cookie)])
                    else (Some ErrJSON, []))\<rparr>"

definition example_config :: Config where
  "example_config =
     \<lparr>APIBaseURL = ''https://api.vrchat.cloud/api/1'', configDir = ''/home/u/.vrc-print''\<rparr>"

definition example_client :: Client where
  "example_client =
     \<lparr>config = example_config, httpClient = resty_New,
      cookies = [(''auth'', Some example_cookie)]\<rparr>"

definition example_fs :: fs where
  "example_fs = [CookieFile example_config \<mapsto> \<lparr>content = ''auth=tok;'', mode = 384\<rparr>]"

text \<open>
  A client constructed with no credential file, after one response that set the
  \<open>auth\<close> cookie has gone through the \<^verbatim>\<open>saveCookies\<close> hook.
\<close>

definition logged_in_client :: Client where
  "logged_in_client =
     saveCookies (NewClient example_codec no_faults example_config Map.empty) [example_cookie]"

definition corrupt_fs :: fs where
  "corrupt_fs = [CookieFile example_config \<mapsto> \<lparr>content = ''not json'', mode = 384\<rparr>]"

section \<open>Properties of the asset pipeline\<close>

subsection \<open>Dimensions produced by \<^verbatim>\<open>imaging.Resize\<close>\<close>

lemma imaging_Resize_fixed:
  "0 < Dx img \<Longrightarrow> 0 < Dy img \<Longrightarrow> 0 < w \<Longrightarrow> 0 < h \<Longrightarrow>
   imaging_Resize img w h = \<lparr>Dx = w, Dy = h\<rparr>"
  by (simp add: imaging_Resize_def)

lemma imaging_Resize_keep_width:
  "0 < Dx img \<Longrightarrow> 0 < Dy img \<Longrightarrow> 0 < w \<Longrightarrow>
   imaging_Resize img w 0 = \<lparr>Dx = w, Dy = max 1 (round_half_up (w * Dy img) (Dx img))\<rparr>"
  by (simp add: imaging_Resize_def Let_def)

lemma imaging_Resize_keep_height:
  "0 < Dx img \<Longrightarrow> 0 < Dy img \<Longrightarrow> 0 < h \<Longrightarrow>
   imaging_Resize img 0 h = \<lparr>Dx = max 1 (round_half_up (h * Dx img) (Dy img)), Dy = h\<rparr>"
  by (simp add: imaging_Resize_def Let_def)

lemma round_half_up_bounds:
  assumes "0 < b"
  shows "2 * b * round_half_up a b \<le> 2 * a + b" and "2 * a + b < 2 * b * round_half_up a b + 2 * b"
proof -
  have pos: "0 < 2 * b" using assms by simp
  have "2 * a + b = 2 * b * ((2 * a + b) div (2 * b)) + (2 * a + b) mod (2 * b)"
    by simp
  moreover have "0 \<le> (2 * a + b) mod (2 * b)" "(2 * a + b) mod (2 * b) < 2 * b"
    using pos by (simp_all only: pos_mod_sign pos_mod_bound)
  ultimately show "2 * b * round_half_up a b \<le> 2 * a + b"
    and "2 * a + b < 2 * b * round_half_up a b + 2 * b"
    unfolding round_half_up_def by linarith+
qed

lemma round_half_up_le:
  assumes "0 < b" "0 \<le> s" "s \<le> b" "0 \<le> n"
  shows "round_half_up (n * s) b \<le> n"
proof -
  have "n * s \<le> n * b" using assms by (simp add: mult_left_mono)
  then have "2 * (n * s) + b < 2 * b * (n + 1)" using assms by (simp add: algebra_simps)
  with round_half_up_bounds(1) [OF assms(1), of "n * s"]
  have "2 * b * round_half_up (n * s) b < 2 * b * (n + 1)" by linarith
  then have "round_half_up (n * s) b < n + 1"
    using assms(1) by (simp only: mult_less_cancel_left_pos [of "2 * b"])
  then show ?thesis by simp
qed

lemma round_half_up_ge1:
  assumes "0 < b" "b \<le> 2 * a"
  shows "1 \<le> round_half_up a b"
proof -
  have "2 * b * (round_half_up a b + 1) = 2 * b * round_half_up a b + 2 * b"
    by (simp add: algebra_simps)
  with round_half_up_bounds(2) [OF assms(1), of a] assms
  have "2 * b * 1 < 2 * b * (round_half_up a b + 1)" by linarith
  then have "1 < round_half_up a b + 1"
    using assms(1) by (simp only: mult_less_cancel_left_pos [of "2 * b"])
  then show ?thesis by simp
qed

lemma resizeImage_target:
  assumes "0 < Dx img" and "0 < Dy img"
  shows "resizeImage img False =
           (if Dx img > Dy img then \<lparr>Dx = 1920, Dy = 1080\<rparr> else \<lparr>Dx = 1080, Dy = 1920\<rparr>)"
  using assms
  by (simp add: resizeImage_def imaging_Resize_fixed Print1080pWidth_def Print1080pHeight_def)

lemma prepareImage_Inr:
  assumes "prepareImage png_Encode file noResize = Inr out"
  shows "\<exists>img0. decode_result file = Inr img0 \<and> out = resizeImage img0 noResize"
  using assms
  by (auto simp: prepareImage_def Let_def split: sum.splits option.splits if_splits)

lemma prepareImage_succeeds:
  assumes "stat_result file = Inr sz" and "sz \<le> MaxImageSize"
    and "open_result file = None" and "decode_result file = Inr img"
    and "png_Encode (resizeImage img noResize) = Inr len" and "len \<le> MaxImageSize"
  shows "prepareImage png_Encode file noResize = Inr (resizeImage img noResize)"
  using assms by (simp add: prepareImage_def)

lemma clamp_positive:
  assumes "0 < Dx img" and "0 < Dy img"
  shows "0 < Dx (resizeImage img True) \<and> 0 < Dy (resizeImage img True)"
  using assms
  by (simp add: resizeImage_def MaxResolution_def Let_def imaging_Resize_keep_width
      imaging_Resize_keep_height max_def)

lemma prepareImage_inline_Inr:
  assumes "prepareImage_inline png_Encode file noResize = Inr out"
  shows "\<exists>img0. decode_result file = Inr img0 \<and>
           (if 0 < Dx img0 \<and> 0 < Dy img0 then out = resizeImage img0 noResize else True)"
proof -
  from assms obtain img0 where d: "decode_result file = Inr img0"
    by (auto simp: prepareImage_inline_def split: sum.splits option.splits if_splits)
  have "out = resizeImage img0 noResize" if pos: "0 < Dx img0" "0 < Dy img0"
  proof (cases noResize)
    case True
    with assms d show ?thesis
      by (auto simp: prepareImage_inline_def resizeImage_def Let_def
          split: sum.splits option.splits if_splits)
  next
    case False
    have c: "0 < Dx (resizeImage img0 True)" "0 < Dy (resizeImage img0 True)"
      using clamp_positive [OF pos] by simp_all
    have t: "resizeImage img0 False =
       (if Dx img0 > Dy img0 then \<lparr>Dx = 1920, Dy = 1080\<rparr> else \<lparr>Dx = 1080, Dy = 1920\<rparr>)"
      by (rule resizeImage_target [OF pos])
    have "out = (if Dx img0 > Dy img0 then \<lparr>Dx = 1920, Dy = 1080\<rparr>
                 else \<lparr>Dx = 1080, Dy = 1920\<rparr>)"
      using assms d False c pos
      by (auto simp: prepareImage_inline_def resizeImage_def Let_def imaging_Resize_fixed
          split: sum.splits option.splits if_splits)
    with t False show ?thesis by simp
  qed
  with d show ?thesis by auto
qed

lemma shorter_axis:
  assumes "0 < s" and "s \<le> l"
  shows "1 \<le> max 1 (round_half_up (2048 * s) l)"
    and "max 1 (round_half_up (2048 * s) l) \<le> 2048"
    and "l \<le> 4096 * s \<Longrightarrow> 2 * \<bar>max 1 (round_half_up (2048 * s) l) * l - 2048 * s\<bar> \<le> l"
    and "4096 * s < l \<Longrightarrow> max 1 (round_half_up (2048 * s) l) = 1"
proof -
  have l: "0 < l" using assms by simp
  show "1 \<le> max 1 (round_half_up (2048 * s) l)" by simp
  show "max 1 (round_half_up (2048 * s) l) \<le> 2048"
    using round_half_up_le [OF l, of s 2048] assms by simp
  note b = round_half_up_bounds [OF l, of "2048 * s"]
  show "2 * \<bar>max 1 (round_half_up (2048 * s) l) * l - 2048 * s\<bar> \<le> l" if "l \<le> 4096 * s"
  proof -
    have "1 \<le> round_half_up (2048 * s) l"
      using round_half_up_ge1 [OF l, of "2048 * s"] that by simp
    then have m: "max 1 (round_half_up (2048 * s) l) = round_half_up (2048 * s) l" by simp
    define X where "X = round_half_up (2048 * s) l * l"
    have "2 * l * round_half_up (2048 * s) l = 2 * X"
      by (simp add: X_def)
    with b have "2 * X \<le> 4096 * s + l" and "4096 * s + l < 2 * X + 2 * l" by simp_all
    then have "2 * \<bar>X - 2048 * s\<bar> \<le> l" by arith
    then show ?thesis unfolding m X_def .
  qed
  show "max 1 (round_half_up (2048 * s) l) = 1" if "4096 * s < l"
  proof -
    have "2 * l * round_half_up (2048 * s) l < 2 * l * 1" using b(1) that by linarith
    then have "round_half_up (2048 * s) l < 1"
      using l by (simp only: mult_less_cancel_left_pos [of "2 * l"])
    then show ?thesis by simp
  qed
qed

lemma resizeImage_clamp:
  assumes "0 < Dx img" and "0 < Dy img" and "Dx img > 2048 \<or> Dy img > 2048"
  shows "resizeImage img True =
           (if Dx img > Dy img
            then \<lparr>Dx = 2048, Dy = max 1 (round_half_up (2048 * Dy img) (Dx img))\<rparr>
            else \<lparr>Dx = max 1 (round_half_up (2048 * Dx img) (Dy img)), Dy = 2048\<rparr>)"
  using assms
  by (simp add: resizeImage_def MaxResolution_def Let_def imaging_Resize_keep_width
      imaging_Resize_keep_height)

text \<open>
  Claim C1, as the code has it. For every decoded image (positive width and height)
  processed with \<open>noResize = False\<close>, the output is exactly 1920x1080 when the source
  width is strictly greater than its height, and exactly 1080x1920 when the width is
  less than or equal to the height; a square source is treated as portrait. This
  holds for \<^verbatim>\<open>resizeImage\<close> and for the result of both versions of
  \<^verbatim>\<open>prepareImage\<close> whenever they return an image.
\<close>

theorem C1_resize_target:
  assumes "0 < Dx img" and "0 < Dy img" and "decode_result file = Inr img"
  shows "resizeImage img False =
           (if Dx img > Dy img then \<lparr>Dx = 1920, Dy = 1080\<rparr> else \<lparr>Dx = 1080, Dy = 1920\<rparr>)
         \<and> (prepareImage png_Encode file False = Inr out \<longrightarrow>
              out = (if Dx img > Dy img then \<lparr>Dx = 1920, Dy = 1080\<rparr>
                     else \<lparr>Dx = 1080, Dy = 1920\<rparr>))
         \<and> (prepareImage_inline png_Encode file False = Inr out \<longrightarrow>
              out = (if Dx img > Dy img then \<lparr>Dx = 1920, Dy = 1080\<rparr>
                     else \<lparr>Dx = 1080, Dy = 1920\<rparr>))"
proof -
  note t = resizeImage_target [OF assms(1,2)]
  have "out = resizeImage img False" if "prepareImage png_Encode file False = Inr out"
    using prepareImage_Inr [OF that] assms(3) by simp
  moreover have "out = resizeImage img False"
    if "prepareImage_inline png_Encode file False = Inr out"
    using prepareImage_inline_Inr [OF that] assms by simp
  ultimately show ?thesis using t by simp
qed

text \<open>
  A square 1000x1000 source with \<open>noResize = False\<close> comes out as 1080x1920, not as
  the 1920x1080 that "width greater than or equal to height" would give.
\<close>

theorem C1_square_counterexample:
  "resizeImage \<lparr>Dx = 1000, Dy = 1000\<rparr> False = \<lparr>Dx = 1080, Dy = 1920\<rparr>
   \<and> resizeImage \<lparr>Dx = 1000, Dy = 1000\<rparr> False \<noteq> \<lparr>Dx = 1920, Dy = 1080\<rparr>
   \<and> prepareImage (\<lambda>img. Inr 4096)
        \<lparr>stat_result = Inr 8192, open_result = None,
         decode_result = Inr \<lparr>Dx = 1000, Dy = 1000\<rparr>\<rparr> False = Inr \<lparr>Dx = 1080, Dy = 1920\<rparr>
   \<and> prepareImage_inline (\<lambda>img. Inr 4096)
        \<lparr>stat_result = Inr 8192, open_result = None,
         decode_result = Inr \<lparr>Dx = 1000, Dy = 1000\<rparr>\<rparr> False = Inr \<lparr>Dx = 1080, Dy = 1920\<rparr>"
  by (simp add: prepareImage_def prepareImage_inline_def resizeImage_def imaging_Resize_def
      MaxImageSize_def MaxResolution_def Print1080pWidth_def Print1080pHeight_def)

theorem C1_resize_target_witness:
  "0 < Dx \<lparr>Dx = 800, Dy = 1200\<rparr> \<and> 0 < Dy \<lparr>Dx = 800, Dy = 1200\<rparr>
   \<and> decode_result \<lparr>stat_result = Inr 8192, open_result = None,
         decode_result = Inr \<lparr>Dx = 800, Dy = 1200\<rparr>\<rparr> = Inr \<lparr>Dx = 800, Dy = 1200\<rparr>
   \<and> resizeImage \<lparr>Dx = 800, Dy = 1200\<rparr> False = \<lparr>Dx = 1080, Dy = 1920\<rparr>
   \<and> prepareImage (\<lambda>img. Inr 4096)
        \<lparr>stat_result = Inr 8192, open_result = None,
         decode_result = Inr \<lparr>Dx = 800, Dy = 1200\<rparr>\<rparr> False = Inr \<lparr>Dx = 1080, Dy = 1920\<rparr>
   \<and> prepareImage_inline (\<lambda>img. Inr 4096)
        \<lparr>stat_result = Inr 8192, open_result = None,
         decode_result = Inr \<lparr>Dx = 800, Dy = 1200\<rparr>\<rparr> False = Inr \<lparr>Dx = 1080, Dy = 1920\<rparr>"
  using C1_resize_target [of "\<lparr>Dx = 800, Dy = 1200\<rparr>"
      "\<lparr>stat_result = Inr 8192, open_result = None,
        decode_result = Inr \<lparr>Dx = 800, Dy = 1200\<rparr>\<rparr>" "\<lambda>img. Inr 4096"
      "\<lparr>Dx = 1080, Dy = 1920\<rparr>"]
  by (simp add: prepareImage_def prepareImage_inline_def resizeImage_def imaging_Resize_def
      MaxImageSize_def MaxResolution_def Print1080pWidth_def Print1080pHeight_def)

text \<open>
  Claim C7, as the code has it. For every decoded image (positive width and height)
  whose width or height exceeds 2048, processed with \<open>noResize = True\<close>: both output
  axes are between 1 and 2048; the axis that was longer in the source (the height
  when they are equal) is exactly 2048; and the shorter axis is the value that
  preserves the aspect ratio rounded to the nearest pixel, so the ratio is preserved
  to within half a pixel, unless the source is more than 4096 times longer than
  wide (or wider than long), in which case the shorter axis is 1 pixel. A 3000x4000
  source yields 1536x2048. This holds for \<^verbatim>\<open>resizeImage\<close> and for the result of
  both versions of \<^verbatim>\<open>prepareImage\<close> whenever they return an image.
\<close>

theorem C7_clamp_dimensions:
  assumes "0 < Dx img" and "0 < Dy img" and "Dx img > 2048 \<or> Dy img > 2048"
    and "decode_result file = Inr img"
  shows "1 \<le> Dx (resizeImage img True) \<and> Dx (resizeImage img True) \<le> 2048
         \<and> 1 \<le> Dy (resizeImage img True) \<and> Dy (resizeImage img True) \<le> 2048
         \<and> (if Dx img > Dy img then Dx (resizeImage img True) = 2048
              else Dy (resizeImage img True) = 2048)
         \<and> (if max (Dx img) (Dy img) \<le> 4096 * min (Dx img) (Dy img)
              then aspect_within_half_pixel img (resizeImage img True)
              else min (Dx (resizeImage img True)) (Dy (resizeImage img True)) = 1)
         \<and> (prepareImage png_Encode file True = Inr out \<longrightarrow> out = resizeImage img True)
         \<and> (prepareImage_inline png_Encode file True = Inr out \<longrightarrow>
              out = resizeImage img True)"
proof -
  note r = resizeImage_clamp [OF assms(1,2,3)]
  have dims: "1 \<le> Dx (resizeImage img True) \<and> Dx (resizeImage img True) \<le> 2048
         \<and> 1 \<le> Dy (resizeImage img True) \<and> Dy (resizeImage img True) \<le> 2048
         \<and> (if Dx img > Dy img then Dx (resizeImage img True) = 2048
              else Dy (resizeImage img True) = 2048)"
  proof (cases "Dx img > Dy img")
    case True
    then have "Dy img \<le> Dx img" by simp
    from shorter_axis(1,2) [OF assms(2) this] True show ?thesis by (simp add: r)
  next
    case False
    then have "Dx img \<le> Dy img" by simp
    from shorter_axis(1,2) [OF assms(1) this] False show ?thesis by (simp add: r)
  qed
  have ratio: "if max (Dx img) (Dy img) \<le> 4096 * min (Dx img) (Dy img)
              then aspect_within_half_pixel img (resizeImage img True)
              else min (Dx (resizeImage img True)) (Dy (resizeImage img True)) = 1"
  proof (cases "Dx img > Dy img")
    case True
    then have le: "Dy img \<le> Dx img" by simp
    from True have mm: "max (Dx img) (Dy img) = Dx img" "min (Dx img) (Dy img) = Dy img"
      by simp_all
    show ?thesis
    proof (cases "Dx img \<le> 4096 * Dy img")
      case near: True
      from shorter_axis(3) [OF assms(2) le near] True near show ?thesis
        by (simp add: r mm aspect_within_half_pixel_def mult.commute)
    next
      case far: False
      then have "4096 * Dy img < Dx img" by simp
      from shorter_axis(4) [OF assms(2) le this] True far show ?thesis
        by (simp add: r mm)
    qed
  next
    case False
    then have le: "Dx img \<le> Dy img" by simp
    from False have mm: "max (Dx img) (Dy img) = Dy img" "min (Dx img) (Dy img) = Dx img"
      by simp_all
    show ?thesis
    proof (cases "Dy img \<le> 4096 * Dx img")
      case near: True
      from shorter_axis(3) [OF assms(1) le near] False near show ?thesis
        by (simp add: r mm aspect_within_half_pixel_def mult.commute)
    next
      case far: False
      then have "4096 * Dx img < Dy img" by simp
      from shorter_axis(4) [OF assms(1) le this] False far show ?thesis
        by (simp add: r mm)
    qed
  qed
  have "out = resizeImage img True" if "prepareImage png_Encode file True = Inr out"
    using prepareImage_Inr [OF that] assms(4) by simp
  moreover have "out = resizeImage img True"
    if "prepareImage_inline png_Encode file True = Inr out"
    using prepareImage_inline_Inr [OF that] assms by simp
  ultimately show ?thesis using dims ratio by simp
qed

text \<open>
  A 1x5000 source with \<open>noResize = True\<close> comes out as 1x2048: the ratio is preserved
  neither exactly nor to within half a pixel. A 3000x2049 source comes out as
  2048x1399, close to but not exactly the original ratio.
\<close>

theorem C7_aspect_counterexample:
  "resizeImage \<lparr>Dx = 1, Dy = 5000\<rparr> True = \<lparr>Dx = 1, Dy = 2048\<rparr>
   \<and> \<not> aspect_preserved \<lparr>Dx = 1, Dy = 5000\<rparr> (resizeImage \<lparr>Dx = 1, Dy = 5000\<rparr> True)
   \<and> \<not> aspect_within_half_pixel \<lparr>Dx = 1, Dy = 5000\<rparr>
         (resizeImage \<lparr>Dx = 1, Dy = 5000\<rparr> True)
   \<and> resizeImage \<lparr>Dx = 3000, Dy = 2049\<rparr> True = \<lparr>Dx = 2048, Dy = 1399\<rparr>
   \<and> \<not> aspect_preserved \<lparr>Dx = 3000, Dy = 2049\<rparr> (resizeImage \<lparr>Dx = 3000, Dy = 2049\<rparr> True)"
  by (simp add: resizeImage_def imaging_Resize_def round_half_up_def MaxResolution_def
      aspect_preserved_def aspect_within_half_pixel_def)

theorem C7_clamp_dimensions_witness:
  "0 < Dx \<lparr>Dx = 3000, Dy = 4000\<rparr> \<and> 0 < Dy \<lparr>Dx = 3000, Dy = 4000\<rparr>
   \<and> (Dx \<lparr>Dx = 3000, Dy = 4000\<rparr> > 2048 \<or> Dy \<lparr>Dx = 3000, Dy = 4000\<rparr> > 2048)
   \<and> decode_result \<lparr>stat_result = Inr 8192, open_result = None,
         decode_result = Inr \<lparr>Dx = 3000, Dy = 4000\<rparr>\<rparr> = Inr \<lparr>Dx = 3000, Dy = 4000\<rparr>
   \<and> resizeImage \<lparr>Dx = 3000, Dy = 4000\<rparr> True = \<lparr>Dx = 1536, Dy = 2048\<rparr>
   \<and> aspect_within_half_pixel \<lparr>Dx = 3000, Dy = 4000\<rparr> \<lparr>Dx = 1536, Dy = 2048\<rparr>
   \<and> prepareImage (\<lambda>img. Inr 4096)
        \<lparr>stat_result = Inr 8192, open_result = None,
         decode_result = Inr \<lparr>Dx = 3000, Dy = 4000\<rparr>\<rparr> True = Inr \<lparr>Dx = 1536, Dy = 2048\<rparr>
   \<and> prepareImage_inline (\<lambda>img. Inr 4096)
        \<lparr>stat_result = Inr 8192, open_result = None,
         decode_result = Inr \<lparr>Dx = 3000, Dy = 4000\<rparr>\<rparr> True = Inr \<lparr>Dx = 1536, Dy = 2048\<rparr>"
  using C7_clamp_dimensions [of "\<lparr>Dx = 3000, Dy = 4000\<rparr>"
      "\<lparr>stat_result = Inr 8192, open_result = None,
        decode_result = Inr \<lparr>Dx = 3000, Dy = 4000\<rparr>\<rparr>" "\<lambda>img. Inr 4096"
      "\<lparr>Dx = 1536, Dy = 2048\<rparr>"]
  by (simp add: prepareImage_def prepareImage_inline_def resizeImage_def imaging_Resize_def
      round_half_up_def MaxImageSize_def MaxResolution_def aspect_within_half_pixel_def)

section \<open>Properties of the session client\<close>

subsection \<open>Local validity check\<close>

lemma IsAuthenticated_nil_entry:
  assumes "map_of (cookies c) ''auth'' = Some None"
  shows "IsAuthenticated c now = Inl NilPointerDereference"
  using assms by (simp add: IsAuthenticated_def)

lemma IsAuthenticated_returns:
  "(\<exists>b. IsAuthenticated c now = Inr b) \<longleftrightarrow> map_of (cookies c) ''auth'' \<noteq> Some None"
  by (auto simp: IsAuthenticated_def split: option.splits)

text \<open>
  Claim C3, as the code has it. For every client whose cookie map holds no nil
  pointer under \<open>auth\<close>, \<^verbatim>\<open>IsAuthenticated()\<close> returns, and it returns true if and only
  if the map has an entry \<open>auth\<close> with a non-empty value whose expiry is either
  absent (the zero time) or not before the current time: an expiry equal to the
  current instant still counts as valid. In particular it returns false whenever
  the \<open>auth\<close> cookie is absent, is empty, or has an expiry in the past.
\<close>

theorem C3_IsAuthenticated_iff:
  assumes "map_of (cookies c) ''auth'' \<noteq> Some None"
  shows "IsAuthenticated c now =
           Inr (\<exists>ck. map_of (cookies c) ''auth'' = Some (Some ck) \<and> Value ck \<noteq> []
                     \<and> (Expires ck = 0 \<or> now \<le> Expires ck))
         \<and> (map_of (cookies c) ''auth'' = None \<longrightarrow> IsAuthenticated c now = Inr False)
         \<and> (\<forall>ck. map_of (cookies c) ''auth'' = Some (Some ck) \<and> Value ck = []
                \<longrightarrow> IsAuthenticated c now = Inr False)
         \<and> (\<forall>ck. map_of (cookies c) ''auth'' = Some (Some ck) \<and> Expires ck \<noteq> 0
                  \<and> Expires ck < now
                \<longrightarrow> IsAuthenticated c now = Inr False)"
proof (cases "map_of (cookies c) ''auth''")
  case None
  then have "IsAuthenticated c now = Inr False"
    by (simp add: IsAuthenticated_def)
  with None show ?thesis by simp
next
  case (Some p)
  with assms obtain authCookie where p: "p = Some authCookie"
    by (cases p) simp_all
  with Some have "IsAuthenticated c now =
      Inr (Value authCookie \<noteq> [] \<and> (Expires authCookie = 0 \<or> now \<le> Expires authCookie))"
    by (auto simp: IsAuthenticated_def IsZero_def Before_def)
  with Some p show ?thesis by auto
qed

text \<open>
  With an \<open>auth\<close> cookie (not a nil pointer) that expires at instant 1000 and the
  clock at 1000, the expiry is neither absent nor strictly in the future, and
  \<^verbatim>\<open>IsAuthenticated()\<close> returns true.
\<close>

theorem C3_expiry_now_counterexample:
  "IsAuthenticated
     (example_client\<lparr>cookies := [(''auth'', Some (example_cookie\<lparr>Expires := 1000\<rparr>))]\<rparr>) 1000
     = Inr True
   \<and> map_of (cookies
         (example_client\<lparr>cookies := [(''auth'', Some (example_cookie\<lparr>Expires := 1000\<rparr>))]\<rparr>))
         ''auth''
       = Some (Some (example_cookie\<lparr>Expires := 1000\<rparr>))
   \<and> \<not> IsZero (Expires (example_cookie\<lparr>Expires := 1000\<rparr>))
   \<and> \<not> (1000 < Expires (example_cookie\<lparr>Expires := 1000\<rparr>))"
  by (simp add: IsAuthenticated_def IsZero_def Before_def example_client_def example_cookie_def)

theorem C3_IsAuthenticated_iff_witness:
  "map_of (cookies
       (example_client\<lparr>cookies := [(''auth'', Some (example_cookie\<lparr>Expires := 999\<rparr>))]\<rparr>))
       ''auth''
     = Some (Some (example_cookie\<lparr>Expires := 999\<rparr>))
   \<and> Expires (example_cookie\<lparr>Expires := 999\<rparr>) \<noteq> 0
   \<and> Expires (example_cookie\<lparr>Expires := 999\<rparr>) < 1000
   \<and> IsAuthenticated
         (example_client\<lparr>cookies := [(''auth'', Some (example_cookie\<lparr>Expires := 999\<rparr>))]\<rparr>)
         1000 = Inr False
   \<and> map_of (cookies example_client) ''auth'' \<noteq> Some None
   \<and> IsAuthenticated example_client 1000 = Inr True
   \<and> map_of (cookies (example_client\<lparr>cookies := []\<rparr>)) ''auth'' \<noteq> Some None
   \<and> IsAuthenticated (example_client\<lparr>cookies := []\<rparr>) 1000 = Inr False"
proof -
  have h: "map_of (cookies
       (example_client\<lparr>cookies := [(''auth'', Some (example_cookie\<lparr>Expires := 999\<rparr>))]\<rparr>))
       ''auth'' \<noteq> Some None"
    "map_of (cookies example_client) ''auth'' \<noteq> Some None"
    "map_of (cookies (example_client\<lparr>cookies := []\<rparr>)) ''auth'' \<noteq> Some None"
    by (simp_all add: example_client_def)
  from C3_IsAuthenticated_iff [OF h(1), of 1000] C3_IsAuthenticated_iff [OF h(2), of 1000]
    C3_IsAuthenticated_iff [OF h(3), of 1000] h
  show ?thesis
    by (simp add: example_client_def example_cookie_def)
qed

subsection \<open>Logout\<close>

lemma Logout_client:
  "fst (snd (Logout env c fs)) = c\<lparr>cookies := [], httpClient := SetCookies [] (httpClient c)\<rparr>"
  by (simp add: Logout_def Let_def split: prod.splits option.splits)

lemma Logout_not_authenticated:
  "IsAuthenticated (fst (snd (Logout env c fs))) now = Inr False"
  by (simp add: Logout_client IsAuthenticated_def)

lemma raised_not_ErrNotExist: "raised f \<noteq> Some ErrNotExist"
  by (cases f) simp_all

lemma Logout_ok_file_absent:
  assumes "fst (Logout env c fs) = None"
  shows "snd (snd (Logout env c fs)) (CookieFile (config c)) = None"
  using assms
  by (auto simp: Logout_def Let_def os_Remove_def IsNotExist_def raised_not_ErrNotExist
      split: prod.splits option.splits if_splits)

lemma Logout_no_fault:
  assumes "fault_Remove env = NoFault"
  shows "fst (Logout env c fs) = None"
  using assms
  by (auto simp: Logout_def Let_def os_Remove_def IsNotExist_def
      split: prod.splits option.splits if_splits)

text \<open>
  Claim C8. Whenever \<^verbatim>\<open>Logout\<close> returns no error, \<^verbatim>\<open>IsAuthenticated()\<close> is false on
  the client it leaves and the credential file is absent, whatever the file system
  held before. When removing the file meets no fault, \<^verbatim>\<open>Logout\<close> returns no error
  whether or not the file existed; for a file that is already absent \<^verbatim>\<open>os.Remove\<close>
  reports "does not exist", which \<^verbatim>\<open>Logout\<close> treats as success, leaving the file
  system as it was.
\<close>

theorem C8_logout_success:
  "(fst (Logout env c fs) = None \<longrightarrow>
      IsAuthenticated (fst (snd (Logout env c fs))) now = Inr False
      \<and> snd (snd (Logout env c fs)) (CookieFile (config c)) = None)
   \<and> (fault_Remove env = NoFault \<longrightarrow> fst (Logout env c fs) = None)
   \<and> (fault_Remove env = NoFault \<and> fs (CookieFile (config c)) = None \<longrightarrow>
        os_Remove env fs (CookieFile (config c)) = (Some ErrNotExist, fs)
        \<and> fst (Logout env c fs) = None \<and> snd (snd (Logout env c fs)) = fs)"
proof -
  have "os_Remove env fs (CookieFile (config c)) = (Some ErrNotExist, fs)
        \<and> snd (snd (Logout env c fs)) = fs"
    if "fault_Remove env = NoFault" and "fs (CookieFile (config c)) = None"
    using that by (simp add: Logout_def Let_def os_Remove_def IsNotExist_def)
  then show ?thesis
    using Logout_not_authenticated [of env c fs now] Logout_ok_file_absent [of env c fs]
      Logout_no_fault [of env c fs]
    by blast
qed

theorem C8_logout_success_witness:
  "fault_Remove no_faults = NoFault
   \<and> fst (Logout no_faults example_client example_fs) = None
   \<and> IsAuthenticated (fst (snd (Logout no_faults example_client example_fs))) 1000 = Inr False
   \<and> snd (snd (Logout no_faults example_client example_fs)) (CookieFile (config example_client)) = None
   \<and> Map.empty (CookieFile (config example_client)) = (None :: File option)
   \<and> fst (Logout no_faults example_client Map.empty) = None
   \<and> snd (snd (Logout no_faults example_client Map.empty)) = Map.empty"
  using C8_logout_success [of no_faults example_client example_fs 1000]
    C8_logout_success [of no_faults example_client Map.empty 1000]
  by (simp add: no_faults_def)

lemma Logout_keeps_transport_cookies:
  "Cookies (httpClient (fst (snd (Logout env c fs)))) = Cookies (httpClient c)"
  by (simp add: Logout_client SetCookies_def)

lemma logged_in_client_value:
  "logged_in_client =
     \<lparr>config = example_config,
      httpClient = resty_New\<lparr>BaseURL := ''https://api.vrchat.cloud/api/1'',
                     Header := [(''User-Agent'', ''vrc-print-upload/1.0'')],
                     Cookies := [Some example_cookie]\<rparr>,
      cookies = [(''auth'', Some example_cookie)]\<rparr>"
  by (simp add: logged_in_client_def saveCookies_def NewClient_def loadCookies_def
      os_Open_def no_faults_def example_config_def example_cookie_def SetCookies_def
      SetHeader_def SetBaseURL_def resty_New_def IsNotExist_def Let_def)

text \<open>
  Claim C9, evaluated. A client that has received the \<open>auth\<close> cookie holds it in its
  map and in the transport's cookies. \<^verbatim>\<open>Logout\<close> with a failing \<^verbatim>\<open>os.Remove\<close>
  returns the wrapped error and leaves the file; the cookie map is empty and
  \<^verbatim>\<open>IsAuthenticated()\<close> is false afterwards, as the claim says; but the transport's
  cookies still hold the \<open>auth\<close> cookie, with or without the failure:
  \<^verbatim>\<open>SetCookies(nil)\<close> appends nothing and removes nothing.
\<close>

theorem C9_failed_logout_evaluation:
  "IsAuthenticated logged_in_client 1000 = Inr True
   \<and> Cookies (httpClient logged_in_client) = [Some example_cookie]
   \<and> fst (Logout (no_faults\<lparr>fault_Remove := EACCES\<rparr>) logged_in_client example_fs)
       = Some (Errorf_w ''failed to remove cookie file'' ErrPermission)
   \<and> snd (snd (Logout (no_faults\<lparr>fault_Remove := EACCES\<rparr>) logged_in_client example_fs))
       = example_fs
   \<and> cookies (fst (snd (Logout (no_faults\<lparr>fault_Remove := EACCES\<rparr>) logged_in_client
         example_fs))) = []
   \<and> IsAuthenticated (fst (snd (Logout (no_faults\<lparr>fault_Remove := EACCES\<rparr>)
         logged_in_client example_fs))) 1000 = Inr False
   \<and> Cookies (httpClient (fst (snd (Logout (no_faults\<lparr>fault_Remove := EACCES\<rparr>)
         logged_in_client example_fs)))) = [Some example_cookie]
   \<and> Cookies (httpClient (fst (snd (Logout no_faults logged_in_client example_fs))))
       = [Some example_cookie]"
proof -
  have before: "IsAuthenticated logged_in_client 1000 = Inr True"
    "Cookies (httpClient logged_in_client) = [Some example_cookie]"
    by (simp_all add: logged_in_client_value IsAuthenticated_def IsZero_def example_cookie_def)
  have result: "fst (Logout (no_faults\<lparr>fault_Remove := EACCES\<rparr>) logged_in_client example_fs)
       = Some (Errorf_w ''failed to remove cookie file'' ErrPermission)"
    "snd (snd (Logout (no_faults\<lparr>fault_Remove := EACCES\<rparr>) logged_in_client example_fs))
       = example_fs"
    by (simp_all add: Logout_def Let_def os_Remove_def IsNotExist_def no_faults_def)
  have "cookies (fst (snd (Logout (no_faults\<lparr>fault_Remove := EACCES\<rparr>) logged_in_client
         example_fs))) = []"
    by (simp add: Logout_client)
  with before result show ?thesis
    by (simp add: Logout_not_authenticated Logout_keeps_transport_cookies)
qed

subsection \<open>Saving the cookies\<close>



subsection \<open>Loading the cookies\<close>

lemma loadCookies_missing_file:
  assumes "fs (CookieFile (config c)) = None" and "fault_Open env = NoFault"
  shows "loadCookies J env c fs = (None, c)"
  using assms by (simp add: loadCookies_def os_Open_def IsNotExist_def)

lemma loadCookies_open_error:
  assumes "fault_Open env \<noteq> NoFault"
  shows "fst (loadCookies J env c fs) = raised (fault_Open env)
         \<and> fst (loadCookies J env c fs) \<noteq> None"
  using assms raised_not_ErrNotExist [of "fault_Open env"]
  by (cases "fault_Open env") (simp_all add: loadCookies_def os_Open_def IsNotExist_def)

lemma loadCookies_decode_error:
  assumes "fs (CookieFile (config c)) = Some f" and "fault_Open env = NoFault"
    and "fault_Read env \<noteq> NoFault \<or> fst (Decode J (content f)) \<noteq> None"
  shows "fst (loadCookies J env c fs) \<noteq> None"
  using assms
  by (cases "fault_Read env"; cases "Decode J (content f)")
    (auto simp: loadCookies_def os_Open_def json_Decode_def split: option.splits)

lemma NewClient_unfold:
  "NewClient J env cfg fs =
     snd (loadCookies J env
            \<lparr>config = cfg,
             httpClient = SetHeader ''User-Agent'' ''vrc-print-upload/1.0''
                            (SetBaseURL (APIBaseURL cfg) resty_New),
             cookies = []\<rparr> fs)"
  by (simp add: NewClient_def Let_def)

text \<open>
  Claim C4, evaluated. \<^verbatim>\<open>loadCookies\<close> reports an error for a credential file
  whose bytes do not decode and for one that cannot be opened, and none for a
  missing file. \<^verbatim>\<open>NewClient\<close> returns the same client in all three cases, with an
  empty cookie map: the error of the load at construction reaches no caller.
\<close>

theorem C4_load_error_dropped:
  "fst (loadCookies example_codec no_faults
          \<lparr>config = example_config,
           httpClient = SetHeader ''User-Agent'' ''vrc-print-upload/1.0''
                          (SetBaseURL (APIBaseURL example_config) resty_New),
           cookies = []\<rparr> corrupt_fs) = Some ErrJSON
   \<and> fst (loadCookies example_codec (no_faults\<lparr>fault_Open := EACCES\<rparr>)
          \<lparr>config = example_config,
           httpClient = SetHeader ''User-Agent'' ''vrc-print-upload/1.0''
                          (SetBaseURL (APIBaseURL example_config) resty_New),
           cookies = []\<rparr> example_fs) = Some ErrPermission
   \<and> fst (loadCookies example_codec no_faults
          \<lparr>config = example_config,
           httpClient = SetHeader ''User-Agent'' ''vrc-print-upload/1.0''
                          (SetBaseURL (APIBaseURL example_config) resty_New),
           cookies = []\<rparr> Map.empty) = None
   \<and> NewClient example_codec no_faults example_config corrupt_fs
       = NewClient example_codec no_faults example_config Map.empty
   \<and> NewClient example_codec (no_faults\<lparr>fault_Open := EACCES\<rparr>) example_config example_fs
       = NewClient example_codec no_faults example_config Map.empty
   \<and> cookies (NewClient example_codec no_faults example_config Map.empty) = []"
  by (simp add: NewClient_def loadCookies_def os_Open_def json_Decode_def no_faults_def
      example_fs_def corrupt_fs_def example_codec_def example_config_def SetCookies_def store_entries_def
      SetHeader_def SetBaseURL_def resty_New_def IsNotExist_def Let_def CookieFile_def
      filepath_Join_def)

lemma saveCookiesToFile_ok:
  assumes "fst (saveCookiesToFile J env c fs) = None"
  shows "\<exists>data f. Encode J (cookies c) = Inr data
           \<and> snd (saveCookiesToFile J env c fs) (CookieFile (config c)) = Some f
           \<and> content f = data \<and> mode f = 384"
  using assms
  by (auto simp: saveCookiesToFile_def Let_def os_Create_def os_Chmod_def file_Write_def
      split: option.splits sum.splits if_splits)

lemma loadCookies_ok:
  assumes "fs (CookieFile (config c)) = Some f"
    and "fault_Open env = NoFault" and "fault_Read env = NoFault"
    and "Decode J (content f) = (None, es)"
  shows "loadCookies J env c fs =
           (None, c\<lparr>cookies := store_entries es (cookies c),
                    httpClient := SetCookies (map snd (store_entries es (cookies c)))
                                    (httpClient c)\<rparr>)"
  using assms
  by (simp add: loadCookies_def os_Open_def json_Decode_def)

text \<open>
  Claim C6. If \<^verbatim>\<open>saveCookiesToFile\<close> returns no error for a client's cookie map, and
  the JSON library decodes the bytes it encoded for that map into an equal map,
  then a client constructed afterwards from the same configuration, with the file
  readable, holds an equal cookie map; the file contains exactly the encoded bytes,
  whatever it contained before.
\<close>

theorem C6_save_load_round_trip:
  assumes "fst (saveCookiesToFile J env c fs) = None"
    and "Encode J (cookies c) = Inr data"
    and "Decode J data = (None, es)"
    and "map_of (store_entries es []) = map_of (cookies c)"
    and "fault_Open env' = NoFault" and "fault_Read env' = NoFault"
  shows "map_of (cookies (NewClient J env' (config c) (snd (saveCookiesToFile J env c fs))))
           = map_of (cookies c)
         \<and> (\<exists>f. snd (saveCookiesToFile J env c fs) (CookieFile (config c)) = Some f
                 \<and> content f = data)"
proof -
  from saveCookiesToFile_ok [OF assms(1)] assms(2)
  obtain f where f: "snd (saveCookiesToFile J env c fs) (CookieFile (config c)) = Some f"
    "content f = data" by auto
  let ?c0 = "\<lparr>config = config c,
             httpClient = SetHeader ''User-Agent'' ''vrc-print-upload/1.0''
                            (SetBaseURL (APIBaseURL (config c)) resty_New),
             cookies = []\<rparr>"
  have "loadCookies J env' ?c0 (snd (saveCookiesToFile J env c fs)) =
          (None, ?c0\<lparr>cookies := store_entries es (cookies ?c0),
                    httpClient := SetCookies (map snd (store_entries es (cookies ?c0)))
                                    (httpClient ?c0)\<rparr>)"
    by (rule loadCookies_ok) (use f assms in auto)
  then have "cookies (NewClient J env' (config c) (snd (saveCookiesToFile J env c fs)))
               = store_entries es []"
    by (simp add: NewClient_unfold)
  with assms(4) f show ?thesis by auto
qed

theorem C6_save_load_round_trip_witness:
  "fst (saveCookiesToFile example_codec no_faults example_client corrupt_fs) = None
   \<and> Encode example_codec (cookies example_client) = Inr ''auth=tok;''
   \<and> Decode example_codec ''auth=tok;'' = (None, [(''auth'', Some example_cookie)])
   \<and> map_of (store_entries [(''auth'', Some example_cookie)] []) = map_of (cookies example_client)
   \<and> fault_Open no_faults = NoFault \<and> fault_Read no_faults = NoFault
   \<and> map_of (cookies (NewClient example_codec no_faults (config example_client)
                (snd (saveCookiesToFile example_codec no_faults example_client corrupt_fs))))
       = map_of (cookies example_client)"
proof -
  have h: "fst (saveCookiesToFile example_codec no_faults example_client corrupt_fs) = None"
    "Encode example_codec (cookies example_client) = Inr ''auth=tok;''"
    "Decode example_codec ''auth=tok;'' = (None, [(''auth'', Some example_cookie)])"
    "map_of (store_entries [(''auth'', Some example_cookie)] []) = map_of (cookies example_client)"
    "fault_Open no_faults = NoFault" "fault_Read no_faults = NoFault"
    by (simp_all add: saveCookiesToFile_def os_Create_def os_Chmod_def file_Write_def
        no_faults_def example_client_def example_codec_def example_cookie_def corrupt_fs_def
        store_entries_def Let_def)
  from C6_save_load_round_trip [of example_codec no_faults example_client corrupt_fs "''auth=tok;''"
      "[(''auth'', Some example_cookie)]" no_faults, OF h] h
  show ?thesis by simp
qed

subsection \<open>The Basic authorization header\<close>

lemma shouldEscape_space: "shouldEscape (CHR '' '')"
  by (simp add: shouldEscape_def)

lemma unreserved_iff: "unreserved c \<longleftrightarrow> \<not> shouldEscape c"
  by (auto simp: unreserved_def shouldEscape_def Let_def)

lemma escape_write_id:
  "escape_count s = (0, 0) \<Longrightarrow> escape_write s = s"
  by (induction s) (auto simp: shouldEscape_space split: prod.splits if_splits)

lemma QueryEscape_write: "QueryEscape s = escape_write s"
  by (auto simp: QueryEscape_def escape_write_id split: prod.splits)

lemma escape_write_formEncode: "escape_write s = formEncode s"
  by (induction s)
    (simp_all add: formEncode_def percentEncode_def pct_def unreserved_iff)

lemma QueryEscape_formEncode: "QueryEscape s = formEncode s"
  by (simp add: QueryEscape_write escape_write_formEncode)

lemma formEncode_no_space:
  "CHR '' '' \<notin> set s \<Longrightarrow> formEncode s = percentEncode s"
  by (induction s) (auto simp: formEncode_def percentEncode_def)

lemma upperhex_not_colon:
  assumes "n < 16"
  shows "upperhex ! n \<noteq> CHR '':''"
proof -
  have "upperhex ! n \<in> set upperhex"
    using assms by (intro nth_mem) (simp add: upperhex_def)
  then show ?thesis by (auto simp: upperhex_def)
qed

lemma of_char_div_16: "(of_char c :: nat) div 16 < 16"
proof -
  have r: "n div 16 < 16" if "n < 256" for n :: nat
    using that by arith
  show ?thesis by (rule r) (rule nat_of_char_less_256)
qed

lemma pct_no_colon: "CHR '':'' \<notin> set (pct c)"
  using upperhex_not_colon [OF of_char_div_16 [of c]]
    upperhex_not_colon [of "of_char c mod 16"]
  by (auto simp: pct_def)

lemma unreserved_not_colon: "unreserved c \<Longrightarrow> c \<noteq> CHR '':''"
  by (auto simp: unreserved_def)

lemma formEncode_no_colon: "CHR '':'' \<notin> set (formEncode s)"
  using pct_no_colon unreserved_not_colon
  by (induction s) (auto simp: formEncode_def percentEncode_def)

text \<open>
  Claim C2, as the code has it. For every username and password the header is
  \<open>Basic\<close>, a space, and the standard base64 encoding of
  \<open>formEncode username @ '':'' @ formEncode password\<close>: each credential is encoded on
  its own before the two are joined, every byte other than an ASCII letter, a digit,
  \<open>-\<close>, \<open>_\<close>, \<open>.\<close> or \<open>~\<close> becoming \<open>%XX\<close> in upper-case hex, except that a space
  becomes \<open>+\<close>. No encoded credential contains a colon. For credentials without a
  space this is plain percent-encoding.
\<close>

theorem C2_auth_header:
  "createAuthHeader username password =
     ''Basic '' @ EncodeToString (formEncode username @ '':'' @ formEncode password)
   \<and> CHR '':'' \<notin> set (formEncode username)
   \<and> CHR '':'' \<notin> set (formEncode password)
   \<and> (if CHR '' '' \<in> set username \<or> CHR '' '' \<in> set password then True
       else createAuthHeader username password =
         ''Basic '' @ EncodeToString (percentEncode username @ '':'' @ percentEncode password))"
proof -
  have "createAuthHeader username password =
          ''Basic '' @ EncodeToString (QueryEscape username @ '':'' @ QueryEscape password)"
    by (simp add: createAuthHeader_def)
  then have header: "createAuthHeader username password =
          ''Basic '' @ EncodeToString (formEncode username @ '':'' @ formEncode password)"
    by (simp only: QueryEscape_formEncode)
  have "createAuthHeader username password =
          ''Basic '' @ EncodeToString (percentEncode username @ '':'' @ percentEncode password)"
    if "CHR '' '' \<notin> set username" and "CHR '' '' \<notin> set password"
    using header that by (simp add: formEncode_no_space)
  with header formEncode_no_colon [of username] formEncode_no_colon [of password]
  show ?thesis by auto
qed

lemma QueryEscape_test_password: "QueryEscape ''p@ss w0rd!'' = ''p%40ss+w0rd%21''"
  by (simp add: QueryEscape_write shouldEscape_def upperhex_def)

lemma QueryEscape_test_user: "QueryEscape ''user'' = ''user''"
  by (simp add: QueryEscape_write shouldEscape_def upperhex_def)

lemma percentEncode_test_password: "percentEncode ''p@ss w0rd!'' = ''p%40ss%20w0rd%21''"
  by (simp add: percentEncode_def unreserved_def pct_def upperhex_def)

lemma percentEncode_test_user: "percentEncode ''user'' = ''user''"
  by (simp add: percentEncode_def unreserved_def pct_def upperhex_def)

text \<open>
  The password \<open>p@ss w0rd!\<close> of the repository's own test: the header carries
  \<open>p%40ss+w0rd%21\<close>, where percent-encoding gives \<open>p%40ss%20w0rd%21\<close>.
\<close>

theorem C2_space_counterexample:
  "createAuthHeader ''user'' ''p@ss w0rd!'' = ''Basic dXNlcjpwJTQwc3MrdzByZCUyMQ==''
   \<and> ''Basic '' @ EncodeToString (percentEncode ''user'' @ '':'' @ percentEncode ''p@ss w0rd!'')
       = ''Basic dXNlcjpwJTQwc3MlMjB3MHJkJTIx''
   \<and> createAuthHeader ''user'' ''p@ss w0rd!'' \<noteq>
       ''Basic '' @ EncodeToString (percentEncode ''user'' @ '':'' @ percentEncode ''p@ss w0rd!'')"
proof -
  have a: "createAuthHeader ''user'' ''p@ss w0rd!'' = ''Basic dXNlcjpwJTQwc3MrdzByZCUyMQ==''"
    by (simp add: createAuthHeader_def QueryEscape_test_password QueryEscape_test_user encodeStd_def)
  have b: "''Basic '' @ EncodeToString (percentEncode ''user'' @ '':'' @ percentEncode ''p@ss w0rd!'')
       = ''Basic dXNlcjpwJTQwc3MlMjB3MHJkJTIx''"
    by (simp add: percentEncode_test_password percentEncode_test_user encodeStd_def)
  show ?thesis unfolding a b by simp
qed

theorem C2_auth_header_witness:
  "CHR '' '' \<notin> set ''test@example.com'' \<and> CHR '' '' \<notin> set ''pass123''
   \<and> createAuthHeader ''test@example.com'' ''pass123''
       = ''Basic '' @ EncodeToString (percentEncode ''test@example.com'' @ '':''
                                        @ percentEncode ''pass123'')
   \<and> percentEncode ''test@example.com'' = ''test%40example.com''
   \<and> createAuthHeader ''test@example.com'' ''pass123''
       = ''Basic dGVzdCU0MGV4YW1wbGUuY29tOnBhc3MxMjM=''"
proof -
  have p: "percentEncode ''test@example.com'' = ''test%40example.com''"
    "percentEncode ''pass123'' = ''pass123''"
    by (simp_all add: percentEncode_def unreserved_def pct_def upperhex_def)
  have e: "EncodeToString ''test%40example.com:pass123''
             = ''dGVzdCU0MGV4YW1wbGUuY29tOnBhc3MxMjM=''"
    by (simp add: encodeStd_def)
  from C2_auth_header [of "''test@example.com''" "''pass123''", THEN conjunct2, THEN conjunct2, THEN conjunct2]
  have "createAuthHeader ''test@example.com'' ''pass123''
       = ''Basic '' @ EncodeToString (percentEncode ''test@example.com'' @ '':''
                                        @ percentEncode ''pass123'')"
    by simp
  then show ?thesis by (simp add: p encodeStd_def)
qed

section \<open>Properties of the resilient transport\<close>

declare Backoff.simps [simp del]

lemma Backoff_props:
  assumes "attempt \<le> retries"
    and "Backoff retries conds operation attempt prev = (out, n)"
  shows "attempt < n \<and> n \<le> Suc retries \<and> out = operation (n - 1)
         \<and> (\<forall>k. attempt \<le> k \<and> k < n - 1 \<longrightarrow>
               needsRetry conds (fst (operation k)) (snd (operation k)))
         \<and> (n \<le> retries \<longrightarrow>
               \<not> needsRetry conds (fst (operation (n - 1))) (snd (operation (n - 1))))"
  using assms
proof (induction retries conds operation attempt prev arbitrary: out n rule: Backoff.induct)
  case (1 retries conds operation attempt prev)
  obtain resp err where op: "operation attempt = (resp, err)"
    by (cases "operation attempt")
  show ?case
  proof (cases "needsRetry conds resp err \<and> attempt \<noteq> retries")
    case stop: False
    with "1.prems" op have r: "out = (resp, err)" "n = Suc attempt"
      by (auto simp: Backoff.simps [of retries conds operation attempt prev] split: if_splits)
    from stop "1.prems"(1) have "Suc attempt \<le> retries \<longrightarrow> \<not> needsRetry conds resp err"
      by auto
    with r op "1.prems"(1) show ?thesis by auto
  next
    case again: True
    with "1.prems" op
    have rec: "Backoff retries conds operation (Suc attempt) (resp, err) = (out, n)"
      by (auto simp: Backoff.simps [of retries conds operation attempt prev] split: if_splits)
    from again "1.prems"(1) have le: "Suc attempt \<le> retries" by simp
    from "1.IH" [OF "1.prems"(1) op [symmetric] _ _ le rec] again
    have ih: "Suc attempt < n \<and> n \<le> Suc retries \<and> out = operation (n - 1)
         \<and> (\<forall>k. Suc attempt \<le> k \<and> k < n - 1 \<longrightarrow>
               needsRetry conds (fst (operation k)) (snd (operation k)))
         \<and> (n \<le> retries \<longrightarrow>
               \<not> needsRetry conds (fst (operation (n - 1))) (snd (operation (n - 1))))"
      by simp
    have "needsRetry conds (fst (operation k)) (snd (operation k))"
      if "attempt \<le> k" "k < n - 1" for k
    proof (cases "k = attempt")
      case True
      with again op show ?thesis by simp
    next
      case False
      with that have "Suc attempt \<le> k" by simp
      with ih that show ?thesis by blast
    qed
    with ih show ?thesis by auto
  qed
qed

lemma client_New_retry:
  "RetryCount (client_New authClient) = maxRetries"
  "RetryConditions (client_New authClient) = [retryCondition]"
  by (simp_all add: client_New_def Let_def SetHeader_def SetCookies_def SetBaseURL_def
      resty_New_def)

lemma needsRetry_single: "needsRetry [retryCondition] r err = retryCondition r err"
  by (simp add: needsRetry_def)

lemma Execute_client_New:
  "Execute (client_New authClient) operation =
     Backoff maxRetries [retryCondition] operation 0 (\<lparr>StatusCode = 0\<rparr>, None)"
  by (simp add: Execute_def client_New_retry maxRetries_def)

lemma Execute_props:
  assumes "Execute (client_New authClient) operation = (out, n)"
  shows "0 < n \<and> n \<le> Suc maxRetries \<and> out = operation (n - 1)
         \<and> (\<forall>k. k < n - 1 \<longrightarrow> retryCondition (fst (operation k)) (snd (operation k)))
         \<and> (n \<le> maxRetries \<longrightarrow>
               \<not> retryCondition (fst (operation (n - 1))) (snd (operation (n - 1))))"
  using Backoff_props [of 0 maxRetries "[retryCondition]" operation "(\<lparr>StatusCode = 0\<rparr>, None)"
      out n] assms
  by (simp add: Execute_client_New needsRetry_single)

lemma Execute_sends_iff:
  "k < snd (Execute (client_New authClient) operation) \<longleftrightarrow>
     k \<le> maxRetries
     \<and> (\<forall>j. j < k \<longrightarrow> retryCondition (fst (operation j)) (snd (operation j)))"
proof -
  obtain out n where e: "Execute (client_New authClient) operation = (out, n)"
    by (cases "Execute (client_New authClient) operation")
  note p = Execute_props [OF e]
  show ?thesis
  proof
    assume "k < snd (Execute (client_New authClient) operation)"
    with e have kn: "k < n" by simp
    with p have "k \<le> maxRetries" by simp
    moreover have "retryCondition (fst (operation j)) (snd (operation j))" if "j < k" for j
    proof -
      from that kn have "j < n - 1" by simp
      with p show ?thesis by blast
    qed
    ultimately show "k \<le> maxRetries
     \<and> (\<forall>j. j < k \<longrightarrow> retryCondition (fst (operation j)) (snd (operation j)))" by blast
  next
    assume a: "k \<le> maxRetries
     \<and> (\<forall>j. j < k \<longrightarrow> retryCondition (fst (operation j)) (snd (operation j)))"
    have "k < n"
    proof (rule ccontr)
      assume "\<not> k < n"
      then have nk: "n \<le> k" by simp
      with a have "n \<le> maxRetries" by simp
      with p have "\<not> retryCondition (fst (operation (n - 1))) (snd (operation (n - 1)))"
        by blast
      moreover from p have "0 < n" by simp
      with nk have "n - 1 < k" by simp
      ultimately show False using a by blast
    qed
    with e show "k < snd (Execute (client_New authClient) operation)" by simp
  qed
qed

lemma Execute_examples:
  "Execute (client_New authClient) (statuses [500, 200]) = ((\<lparr>StatusCode = 200\<rparr>, None), 2)"
  "Execute (client_New authClient) (statuses [404]) = ((\<lparr>StatusCode = 404\<rparr>, None), 1)"
  by (simp_all add: Execute_client_New Backoff.simps maxRetries_def needsRetry_def
      retryCondition_def statuses_def)

text \<open>
  Claim C5. On the client that \<^verbatim>\<open>client.New\<close> configures, a result is retried exactly
  when the call returned an error or the status is 429 or at least 500. The send
  number \<open>k\<close> (counted from 0) takes place if and only if \<open>k\<close> is at most
  \<open>maxRetries\<close> and every earlier send had such a result; the caller gets the result
  of the last send, after at most \<open>maxRetries + 1\<close> sends. A 500 followed by a 200
  makes two sends, that is one retry, and returns the 200; a 404 makes one send, no
  retry, and is returned.
\<close>

theorem C5_retry_policy:
  "(retryCondition r err \<longleftrightarrow> err \<noteq> None \<or> StatusCode r = 429 \<or> StatusCode r \<ge> 500)
   \<and> (k < snd (Execute (client_New authClient) operation) \<longleftrightarrow>
        k \<le> maxRetries
        \<and> (\<forall>j. j < k \<longrightarrow> retryCondition (fst (operation j)) (snd (operation j))))
   \<and> fst (Execute (client_New authClient) operation)
        = operation (snd (Execute (client_New authClient) operation) - 1)
   \<and> snd (Execute (client_New authClient) operation) \<le> Suc maxRetries
   \<and> Execute (client_New authClient) (statuses [500, 200]) = ((\<lparr>StatusCode = 200\<rparr>, None), 2)
   \<and> Execute (client_New authClient) (statuses [404]) = ((\<lparr>StatusCode = 404\<rparr>, None), 1)"
proof -
  obtain out n where e: "Execute (client_New authClient) operation = (out, n)"
    by (cases "Execute (client_New authClient) operation")
  from Execute_props [OF e] e
  have "fst (Execute (client_New authClient) operation)
        = operation (snd (Execute (client_New authClient) operation) - 1)"
    and "snd (Execute (client_New authClient) operation) \<le> Suc maxRetries"
    by simp_all
  moreover have "retryCondition r err \<longleftrightarrow> err \<noteq> None \<or> StatusCode r = 429 \<or> StatusCode r \<ge> 500"
    by (simp add: retryCondition_def)
  ultimately show ?thesis
    using Execute_sends_iff [of k authClient operation] Execute_examples [of authClient]
    by simp
qed

theorem C5_retry_policy_witness:
  "(1 < snd (Execute (client_New resty_New) (statuses [500, 200])))
   \<and> (1::nat) \<le> maxRetries
   \<and> retryCondition (fst (statuses [500, 200] 0)) (snd (statuses [500, 200] 0))
   \<and> \<not> retryCondition (fst (statuses [500, 200] 1)) (snd (statuses [500, 200] 1))
   \<and> \<not> (2 < snd (Execute (client_New resty_New) (statuses [500, 200])))
   \<and> \<not> (1 < snd (Execute (client_New resty_New) (statuses [404])))"
  using C5_retry_policy [of "\<lparr>StatusCode = 500\<rparr>" None 1 resty_New "statuses [500, 200]"]
    C5_retry_policy [of "\<lparr>StatusCode = 200\<rparr>" None 2 resty_New "statuses [500, 200]"]
    C5_retry_policy [of "\<lparr>StatusCode = 404\<rparr>" None 1 resty_New "statuses [404]"]
  by (simp add: maxRetries_def statuses_def retryCondition_def)

end
